theory Spec2Isabelle
  imports Main
begin

section \<open>Server side: documents, collections and errors\<close>

text \<open>
  Identifiers (Mongo \<open>_id\<close>s, employee, project and task ids) are strings, as in
  \<open>src/types/index.ts\<close>. A \<open>Date\<close> is modelled by its \<open>getTime()\<close> value, an
  integer number of milliseconds. A collection is the list of its documents in
  insertion order. Record fields keep the names of the TypeScript interfaces; the
  fields of \<open>Project\<close>, \<open>Task\<close> and \<open>Screenshot\<close> that would clash with those of
  \<open>TimeEntry\<close> carry a prefix, and \<open>_id\<close> is written \<open>te_id\<close>, \<open>p_id\<close>, \<open>t_id\<close>, \<open>s_id\<close>.
\<close>

type_synonym oid = string
type_synonym millis = int

record ScreenshotSettings =
  screenshotEnabled :: bool
  interval :: int

record Project =
  p_id :: oid
  p_name :: string
  p_employees :: "oid list"
  screenshotSettings :: "ScreenshotSettings option"

record Task =
  t_id :: oid
  t_name :: string
  t_projectId :: oid
  t_employees :: "oid list"

record TimeEntry =
  te_id :: oid
  employeeId :: oid
  projectId :: oid
  taskId :: oid
  startTime :: millis
  endTime :: "millis option"
  duration :: int
  description :: "string option"
  isActive :: bool
  screenshots :: "oid list"
  deviceInfo :: string

record Screenshot =
  s_id :: oid
  s_employeeId :: oid
  s_timeEntryId :: oid
  s_projectId :: oid
  s_taskId :: oid
  fileSize :: nat
  width :: nat
  height :: nat
  takenAt :: millis

record db =
  timeentries :: "TimeEntry list"
  projects :: "Project list"
  tasks :: "Task list"
  screenshotDocs :: "Screenshot list"

text \<open>
  \<open>AppError m c\<close> is \<open>createError(m, c)\<close> handed to \<open>next\<close>; the other constructors are
  the exceptions a rejected promise carries: a schema validator refusing a path on
  \<open>save\<close>, the unique index on \<open>_id\<close> refusing an insert, and a failed I/O step inside
  the screenshot service.
\<close>

datatype error =
    AppError string nat
  | ValidationError string
  | DuplicateKey oid
  | IOError string

record reply =
  status :: nat
  success :: bool
  data :: TimeEntry
  message :: string

record StartTimeTrackingRequest =
  rq_projectId :: oid
  rq_taskId :: oid
  rq_description :: "string option"

record StopTimeTrackingRequest =
  rq_timeEntryId :: oid
  rq_stopDescription :: "string option"

text \<open>JavaScript truthiness of an optional string: \<open>undefined\<close> and \<open>''\<close> are falsy.\<close>

definition truthy :: "string option \<Rightarrow> bool" where
  "truthy s = (case s of None \<Rightarrow> False | Some x \<Rightarrow> x \<noteq> [])"

text \<open>\<open>String.prototype.trim\<close>, for the ASCII white space characters. The theorems below
  rely only on \<open>trim\<close> not lengthening a string.\<close>

definition is_space :: "char \<Rightarrow> bool" where
  "is_space c = (c \<in> set [CHR '' '', CHR 0x09, CHR 0x0A, CHR 0x0B, CHR 0x0C, CHR 0x0D])"

definition trim :: "string \<Rightarrow> string" where
  "trim s = rev (dropWhile is_space (rev (dropWhile is_space s)))"

subsection \<open>The TimeEntry model (schema hooks, statics and methods)\<close>

text \<open>\<open>TimeEntrySchema.pre('save')\<close>, with \<open>now\<close> the value of \<open>Date.now()\<close> inside the hook.\<close>

definition pre_save :: "millis \<Rightarrow> TimeEntry \<Rightarrow> TimeEntry" where
  "pre_save now te =
     (case endTime te of
        Some et \<Rightarrow> te\<lparr>duration := et - startTime te, isActive := False\<rparr>
      | None \<Rightarrow> if isActive te then te\<lparr>duration := now - startTime te\<rparr> else te)"

text \<open>\<open>methods.stop\<close>, \<open>methods.addScreenshot\<close> and \<open>methods.updateDescription\<close>, each up to
  its final \<open>this.save()\<close>.\<close>

definition stop_fields :: "millis \<Rightarrow> TimeEntry \<Rightarrow> TimeEntry" where
  "stop_fields now te = te\<lparr>endTime := Some now, isActive := False, duration := now - startTime te\<rparr>"

definition addScreenshot_fields :: "oid \<Rightarrow> TimeEntry \<Rightarrow> TimeEntry" where
  "addScreenshot_fields sid te =
     (if sid \<in> set (screenshots te) then te else te\<lparr>screenshots := screenshots te @ [sid]\<rparr>)"

definition updateDescription_fields :: "string \<Rightarrow> TimeEntry \<Rightarrow> TimeEntry" where
  "updateDescription_fields d te = te\<lparr>description := Some (trim d)\<rparr>"

text \<open>Schema validators that can refuse a save: \<open>duration: min 0\<close> and
  \<open>description: maxlength 500\<close>. Validation runs before the \<open>pre('save')\<close> hook.\<close>

definition valid_duration :: "TimeEntry \<Rightarrow> bool" where
  "valid_duration te = (0 \<le> duration te)"

definition valid_description :: "TimeEntry \<Rightarrow> bool" where
  "valid_description te = (case description te of None \<Rightarrow> True | Some d \<Rightarrow> length d \<le> 500)"

text \<open>The store: \<open>findOne\<close> returns the first match; inserting is refused when the \<open>_id\<close>
  is taken (Mongo's unique \<open>_id\<close> index, the only unique index on \<open>timeentries\<close>);
  saving a loaded document rewrites the document with its \<open>_id\<close>.\<close>

definition findOneActive :: "oid \<Rightarrow> db \<Rightarrow> TimeEntry option" where
  "findOneActive eid d = find (\<lambda>te. employeeId te = eid \<and> isActive te) (timeentries d)"

definition findOneActiveById :: "oid \<Rightarrow> oid \<Rightarrow> db \<Rightarrow> TimeEntry option" where
  "findOneActiveById tid eid d =
     find (\<lambda>te. te_id te = tid \<and> employeeId te = eid \<and> isActive te) (timeentries d)"

definition findActiveEntries :: "oid \<Rightarrow> db \<Rightarrow> TimeEntry list" where
  "findActiveEntries eid d = filter (\<lambda>te. isActive te \<and> employeeId te = eid) (timeentries d)"

definition Project_findById :: "oid \<Rightarrow> db \<Rightarrow> Project option" where
  "Project_findById pid d = find (\<lambda>p. p_id p = pid) (projects d)"

definition Task_findById :: "oid \<Rightarrow> db \<Rightarrow> Task option" where
  "Task_findById tid d = find (\<lambda>t. t_id t = tid) (tasks d)"

definition insertOne :: "TimeEntry \<Rightarrow> db \<Rightarrow> error + db" where
  "insertOne te d =
     (if te_id te \<in> set (map te_id (timeentries d)) then Inl (DuplicateKey (te_id te))
      else Inr (d\<lparr>timeentries := timeentries d @ [te]\<rparr>))"

fun replaceOne :: "TimeEntry \<Rightarrow> TimeEntry list \<Rightarrow> TimeEntry list" where
  "replaceOne te [] = []"
| "replaceOne te (x # xs) = (if te_id x = te_id te then te # xs else x # replaceOne te xs)"

definition save_loaded :: "millis \<Rightarrow> TimeEntry \<Rightarrow> db \<Rightarrow> TimeEntry \<times> db" where
  "save_loaded now te d =
     (let te' = pre_save now te in (te', d\<lparr>timeentries := replaceOne te' (timeentries d)\<rparr>))"


subsection \<open>The server's screenshot service\<close>

text \<open>
  \<open>ScreenshotService.captureScreenshot\<close> runs its whole body inside \<open>try\<close> and returns
  \<open>null\<close> from the \<open>catch\<close>. The outcome of every awaited I/O step is an input:
  \<open>processScreenshot\<close> and \<open>createThumbnail\<close> catch their own failures and so contribute
  no failing step. \<open>captureScreenshot_try\<close> is the body of the \<open>try\<close>; \<open>statSize\<close> is the
  size \<open>fs.stat\<close> reports, \<open>imageInfo\<close> the width and height of \<open>sharp(...).metadata()\<close>
  (either may be undefined), \<open>recordId\<close> the \<open>_id\<close> of the saved Screenshot document, each
  \<open>None\<close> when the step rejects.
\<close>

record capture_env =
  grabOk :: bool
  writeFileOk :: bool
  statSize :: "nat option"
  imageInfo :: "(nat option \<times> nat option) option"
  recordId :: "oid option"
  capturedAt :: millis

definition captureScreenshot_try ::
  "capture_env \<Rightarrow> oid \<Rightarrow> oid \<Rightarrow> oid \<Rightarrow> oid \<Rightarrow> error + Screenshot" where
  "captureScreenshot_try c eid teid pid tid =
     (if \<not> grabOk c then Inl (IOError ''screenshot'')
      else if \<not> writeFileOk c then Inl (IOError ''writeFile'')
      else case statSize c of
        None \<Rightarrow> Inl (IOError ''stat'')
      | Some sz \<Rightarrow>
          (case imageInfo c of
             None \<Rightarrow> Inl (IOError ''metadata'')
           | Some (w, h) \<Rightarrow>
               (case recordId c of
                  None \<Rightarrow> Inl (IOError ''save'')
                | Some sid \<Rightarrow>
                    Inr \<lparr>s_id = sid, s_employeeId = eid, s_timeEntryId = teid,
                         s_projectId = pid, s_taskId = tid, fileSize = sz,
                         width = (case w of None \<Rightarrow> 0 | Some n \<Rightarrow> n),
                         height = (case h of None \<Rightarrow> 0 | Some n \<Rightarrow> n),
                         takenAt = capturedAt c\<rparr>)))"

definition captureScreenshot ::
  "capture_env \<Rightarrow> oid \<Rightarrow> oid \<Rightarrow> oid \<Rightarrow> oid \<Rightarrow> db \<Rightarrow> error + (oid option \<times> db)" where
  "captureScreenshot c eid teid pid tid d =
     (case captureScreenshot_try c eid teid pid tid of
        Inl e \<Rightarrow> Inr (None, d)
      | Inr s \<Rightarrow> Inr (Some (s_id s), d\<lparr>screenshotDocs := screenshotDocs d @ [s]\<rparr>))"

subsection \<open>The controller: start, stop and the active query\<close>

text \<open>
  The inputs of one \<open>startTimeTracking\<close> call that do not come from the request or the
  store: the \<open>_id\<close> given to the new document, the device snapshot (\<open>getDeviceInfo\<close>
  catches its failures and falls back to defaults), the clock readings of
  \<open>new Date()\<close> and of the two \<open>pre('save')\<close> hooks, and the capture outcomes.
  The e-mail notification is left out: \<open>sendTimeTrackingNotification\<close> catches every
  failure and its result is discarded.
\<close>

record start_env =
  newId :: oid
  device :: string
  createdAt :: millis
  savedAt :: millis
  capture :: capture_env
  shotSavedAt :: millis

record stop_env =
  stoppedAt :: millis
  stopSavedAt :: millis
  descSavedAt :: millis

definition screenshotEnabled_of :: "Project \<Rightarrow> bool" where
  "screenshotEnabled_of p =
     (case screenshotSettings p of None \<Rightarrow> False | Some s \<Rightarrow> screenshotEnabled s)"

text \<open>The local \<open>interval\<close> of \<open>startTimeTracking\<close>
  (\<open>project.screenshotSettings.interval || 300000\<close>); the handler never reads it again.\<close>

definition start_interval :: "Project \<Rightarrow> int" where
  "start_interval p =
     (case screenshotSettings p of
        None \<Rightarrow> 300000
      | Some s \<Rightarrow> if interval s = 0 then 300000 else interval s)"

text \<open>Lines 17 to 48 of the handler: the reads and the four guards.\<close>

definition start_check ::
  "db \<Rightarrow> oid option \<Rightarrow> StartTimeTrackingRequest \<Rightarrow> error + (oid \<times> Project \<times> Task)" where
  "start_check d user req =
     (case user of
        None \<Rightarrow> Inl (AppError ''Employee ID not found in token'' 401)
      | Some eid \<Rightarrow>
          if eid = [] then Inl (AppError ''Employee ID not found in token'' 401)
          else (case findOneActive eid d of
            Some active \<Rightarrow> Inl (AppError ''Employee already has an active time entry'' 400)
          | None \<Rightarrow>
              (case Project_findById (rq_projectId req) d of
                 None \<Rightarrow> Inl (AppError ''Project not found'' 404)
               | Some project \<Rightarrow>
                   if eid \<notin> set (p_employees project)
                   then Inl (AppError ''Employee not assigned to project'' 403)
                   else (case Task_findById (rq_taskId req) d of
                     None \<Rightarrow> Inl (AppError ''Task not found'' 404)
                   | Some task \<Rightarrow>
                       if eid \<notin> set (t_employees task)
                       then Inl (AppError ''Employee not assigned to task'' 403)
                       else Inr (eid, project, task)))))"

text \<open>Lines 50 to 104: build the document, save it, capture once when enabled, reply.\<close>

definition start_commit ::
  "start_env \<Rightarrow> db \<Rightarrow> oid \<Rightarrow> StartTimeTrackingRequest \<Rightarrow> Project \<Rightarrow> Task
     \<Rightarrow> (error + reply) \<times> db" where
  "start_commit env d eid req project task =
     (let timeEntry = \<lparr>te_id = newId env, employeeId = eid, projectId = rq_projectId req,
                       taskId = rq_taskId req, startTime = createdAt env, endTime = None,
                       duration = 0, description = map_option trim (rq_description req),
                       isActive = True, screenshots = [], deviceInfo = device env\<rparr>
      in if \<not> valid_description timeEntry then (Inl (ValidationError ''description''), d)
         else (case insertOne (pre_save (savedAt env) timeEntry) d of
           Inl e \<Rightarrow> (Inl e, d)
         | Inr d1 \<Rightarrow>
             (let saved = pre_save (savedAt env) timeEntry;
                  ok = (\<lambda>te. \<lparr>status = 201, success = True, data = te,
                              message = ''Time tracking started successfully''\<rparr>)
              in if screenshotEnabled_of project
                 then (case captureScreenshot (capture env) eid (te_id saved)
                              (rq_projectId req) (rq_taskId req) d1 of
                     Inl e \<Rightarrow> (Inl e, d1)
                   | Inr (None, d2) \<Rightarrow> (Inr (ok saved), d2)
                   | Inr (Some sid, d2) \<Rightarrow>
                       if sid = [] then (Inr (ok saved), d2)
                       else (case save_loaded (shotSavedAt env)
                                    (addScreenshot_fields sid saved) d2 of
                         (te', d3) \<Rightarrow> (Inr (ok te'), d3)))
                 else (Inr (ok saved), d1))))"

definition startTimeTracking ::
  "start_env \<Rightarrow> db \<Rightarrow> oid option \<Rightarrow> StartTimeTrackingRequest \<Rightarrow> (error + reply) \<times> db" where
  "startTimeTracking env d user req =
     (case start_check d user req of
        Inl e \<Rightarrow> (Inl e, d)
      | Inr (eid, project, task) \<Rightarrow> start_commit env d eid req project task)"

definition stopTimeTracking ::
  "stop_env \<Rightarrow> db \<Rightarrow> oid option \<Rightarrow> StopTimeTrackingRequest \<Rightarrow> (error + reply) \<times> db" where
  "stopTimeTracking env d user req =
     (case user of
        None \<Rightarrow> (Inl (AppError ''Employee ID not found in token'' 401), d)
      | Some eid \<Rightarrow>
          if eid = [] then (Inl (AppError ''Employee ID not found in token'' 401), d)
          else (case findOneActiveById (rq_timeEntryId req) eid d of
            None \<Rightarrow> (Inl (AppError ''Active time entry not found'' 404), d)
          | Some timeEntry \<Rightarrow>
              (let ok = (\<lambda>te. \<lparr>status = 200, success = True, data = te,
                                message = ''Time tracking stopped successfully''\<rparr>);
                   stopping = stop_fields (stoppedAt env) timeEntry
               in if \<not> valid_duration stopping then (Inl (ValidationError ''duration''), d)
                  else (case save_loaded (stopSavedAt env) stopping d of
                    (stopped, d1) \<Rightarrow>
                      (case rq_stopDescription req of
                         None \<Rightarrow> (Inr (ok stopped), d1)
                       | Some dsc \<Rightarrow>
                           if dsc = [] then (Inr (ok stopped), d1)
                           else (let described = updateDescription_fields dsc stopped
                                 in if \<not> valid_description described
                                    then (Inl (ValidationError ''description''), d1)
                                    else (case save_loaded (descSavedAt env) described d1 of
                                      (te', d2) \<Rightarrow> (Inr (ok te'), d2))))))))"

text \<open>\<open>getActiveTimeEntries\<close> answers with the first query's result, all active entries of
  the employee, status 200.\<close>

definition getActiveTimeEntries :: "db \<Rightarrow> oid option \<Rightarrow> error + TimeEntry list" where
  "getActiveTimeEntries d user =
     (case user of
        None \<Rightarrow> Inl (AppError ''Employee ID not found in token'' 401)
      | Some eid \<Rightarrow>
          if eid = [] then Inl (AppError ''Employee ID not found in token'' 401)
          else Inr (findActiveEntries eid d))"


subsection \<open>Sequences of requests and interleaved requests\<close>

text \<open>
  \<open>activeCount\<close> counts the Active entries of an employee. \<open>reachable\<close> are the stores
  the server reaches from an empty \<open>timeentries\<close> collection when every request runs to
  completion before the next one begins; the last rule stands for the other controllers,
  which write projects, tasks and screenshots but never a time entry.
  \<open>no_stop_between e d d'\<close> says that \<open>d'\<close> is reached from \<open>d\<close> by such requests, none of
  them a stop sent by employee \<open>e\<close>.
\<close>

definition activeCount :: "db \<Rightarrow> oid \<Rightarrow> nat" where
  "activeCount d e = length (findActiveEntries e d)"


inductive reachable :: "db \<Rightarrow> bool" where
  empty: "timeentries d = [] \<Longrightarrow> reachable d"
| start: "reachable d \<Longrightarrow> reachable (snd (startTimeTracking env d user req))"
| stop: "reachable d \<Longrightarrow> reachable (snd (stopTimeTracking senv d user sreq))"
| other: "reachable d \<Longrightarrow> reachable (d\<lparr>projects := ps, tasks := ts, screenshotDocs := ss\<rparr>)"

inductive no_stop_between :: "oid \<Rightarrow> db \<Rightarrow> db \<Rightarrow> bool" for e :: oid and d :: db where
  refl: "no_stop_between e d d"
| start: "no_stop_between e d d1 \<Longrightarrow>
            no_stop_between e d (snd (startTimeTracking env d1 user req))"
| stop: "no_stop_between e d d1 \<Longrightarrow> user \<noteq> Some e \<Longrightarrow>
            no_stop_between e d (snd (stopTimeTracking senv d1 user sreq))"
| other: "no_stop_between e d d1 \<Longrightarrow>
            no_stop_between e d (d1\<lparr>projects := ps, tasks := ts, screenshotDocs := ss\<rparr>)"

text \<open>\<open>stopped_for_good tid d\<close>: the store holds the id \<open>tid\<close>, and only on entries that are
  not Active.\<close>

definition stopped_for_good :: "oid \<Rightarrow> db \<Rightarrow> bool" where
  "stopped_for_good tid d =
     ((\<exists>te \<in> set (timeentries d). te_id te = tid) \<and>
      (\<forall>te \<in> set (timeentries d). te_id te = tid \<longrightarrow> \<not> isActive te))"

text \<open>
  \<open>startTimeTracking\<close> is an \<open>async\<close> function: at each \<open>await\<close> the event loop may run
  another request. A handler in flight is \<open>Ready\<close> (nothing run yet), \<open>Validated\<close>
  (suspended after the guards of lines 17 to 48, holding the project and task it read)
  or \<open>Done\<close>. One step runs a handler up to its next suspension; the two steps taken in
  a row are \<open>startTimeTracking\<close>. The handler awaits more often than this, so every
  schedule here is an execution of the code.
\<close>

datatype handler =
    Ready "oid option" StartTimeTrackingRequest start_env
  | Validated oid StartTimeTrackingRequest start_env Project Task
  | Done "error + reply"

definition handler_step :: "handler \<Rightarrow> db \<Rightarrow> handler \<times> db" where
  "handler_step h d =
     (case h of
        Ready user req env \<Rightarrow>
          (case start_check d user req of
             Inl e \<Rightarrow> (Done (Inl e), d)
           | Inr (eid, project, task) \<Rightarrow> (Validated eid req env project task, d))
      | Validated eid req env project task \<Rightarrow>
          (case start_commit env d eid req project task of (res, d') \<Rightarrow> (Done res, d'))
      | Done res \<Rightarrow> (Done res, d))"

fun run_schedule :: "nat list \<Rightarrow> handler list \<times> db \<Rightarrow> handler list \<times> db" where
  "run_schedule [] s = s"
| "run_schedule (i # sched) (hs, d) =
     (if i < length hs
      then (case handler_step (hs ! i) d of (h', d') \<Rightarrow> run_schedule sched (hs[i := h'], d'))
      else run_schedule sched (hs, d))"

section \<open>Desktop agent: TimeTrackingService\<close>

text \<open>
  The agent's state is the fields of \<open>TimeTrackingService\<close>, the keys of the
  \<open>electron-store\<close> it reads and writes (\<open>auth_token\<close>, \<open>activeTimeEntry\<close>, \<open>settings\<close>),
  and two logs of its effects: the API requests it has sent and the calls of
  \<open>screenshotService.captureScreenshot()\<close> it has begun, each with the session it was for.
  The timer handle \<open>screenshotInterval\<close> is \<open>None\<close> for \<open>null\<close> and otherwise holds the
  period \<open>setInterval\<close> was given. The entry the agent holds is the JSON of the server's
  document; its \<open>startTime\<close> string stands for the same millisecond value. The outcome of
  an API call is an input: \<open>Inl m\<close> when \<open>ApiService\<close> throws \<open>Error(m)\<close>, \<open>Inr\<close> the
  \<open>data\<close> of the response otherwise.
\<close>

record settings =
  s_screenshotInterval :: "int option"

datatype api_call =
    PostStart oid oid
  | PostStop oid
  | GetActive
  | PostScreenshot oid oid oid

record agent =
  activeEntry :: "TimeEntry option"
  screenshotInterval :: "int option"
  isInitialized :: bool
  auth_token :: "string option"
  stored_activeTimeEntry :: "TimeEntry option"
  stored_settings :: "settings option"
  apiCalls :: "api_call list"
  captureAttempts :: "oid list"

text \<open>\<open>settings?.screenshotInterval ?? 300000\<close>\<close>

definition configured_interval :: "agent \<Rightarrow> int" where
  "configured_interval a =
     (case stored_settings a of
        None \<Rightarrow> 300000
      | Some s \<Rightarrow> (case s_screenshotInterval s of None \<Rightarrow> 300000 | Some i \<Rightarrow> i))"

definition startScreenshotCapture :: "agent \<Rightarrow> agent" where
  "startScreenshotCapture a =
     (case screenshotInterval a of
        Some running \<Rightarrow> a
      | None \<Rightarrow> a\<lparr>screenshotInterval := Some (configured_interval a)\<rparr>)"

definition stopScreenshotCapture :: "agent \<Rightarrow> agent" where
  "stopScreenshotCapture a =
     (case screenshotInterval a of
        Some running \<Rightarrow> a\<lparr>screenshotInterval := None\<rparr>
      | None \<Rightarrow> a)"

definition initialize :: "agent \<Rightarrow> agent" where
  "initialize a =
     (if isInitialized a then a
      else (if truthy (auth_token a)
            then (let a1 = a\<lparr>activeEntry := stored_activeTimeEntry a\<rparr>
                  in case activeEntry a1 of
                       None \<Rightarrow> a1
                     | Some e \<Rightarrow> if isActive e then startScreenshotCapture a1 else a1)
            else a)\<lparr>isInitialized := True\<rparr>)"

definition startTracking ::
  "string + TimeEntry \<Rightarrow> agent \<Rightarrow> StartTimeTrackingRequest \<Rightarrow> (string + TimeEntry) \<times> agent" where
  "startTracking response a dat =
     (case activeEntry a of
        Some e \<Rightarrow> (Inl ''Time tracking is already active'', a)
      | None \<Rightarrow>
          (let a1 = a\<lparr>apiCalls := apiCalls a @ [PostStart (rq_projectId dat) (rq_taskId dat)]\<rparr>
           in case response of
                Inl m \<Rightarrow> (Inl m, a1)
              | Inr entry \<Rightarrow>
                  (Inr entry,
                   startScreenshotCapture
                     (a1\<lparr>activeEntry := Some entry, stored_activeTimeEntry := Some entry\<rparr>))))"

definition stopTracking ::
  "string + TimeEntry \<Rightarrow> agent \<Rightarrow> oid \<Rightarrow> (string + TimeEntry) \<times> agent" where
  "stopTracking response a timeEntryId =
     (case activeEntry a of
        None \<Rightarrow> (Inl ''No active time entry found'', a)
      | Some e \<Rightarrow>
          if te_id e \<noteq> timeEntryId then (Inl ''No active time entry found'', a)
          else (let a1 = a\<lparr>apiCalls := apiCalls a @ [PostStop timeEntryId]\<rparr>
                in case response of
                     Inl m \<Rightarrow> (Inl m, a1)
                   | Inr stopped \<Rightarrow>
                       (Inr stopped,
                        (stopScreenshotCapture (a1\<lparr>activeEntry := Some stopped\<rparr>))
                          \<lparr>stored_activeTimeEntry := None, activeEntry := None\<rparr>)))"

definition getActiveEntry ::
  "string + TimeEntry list \<Rightarrow> agent \<Rightarrow> (string + TimeEntry option) \<times> agent" where
  "getActiveEntry response a =
     (case activeEntry a of
        Some e \<Rightarrow> (Inr (Some e), a)
      | None \<Rightarrow>
          (let a1 = a\<lparr>apiCalls := apiCalls a @ [GetActive]\<rparr>
           in case response of
                Inl m \<Rightarrow> (Inl m, a1)
              | Inr dat \<Rightarrow>
                  (let first = (case dat of [] \<Rightarrow> None | x # rest \<Rightarrow> Some x)
                   in (Inr first, a1\<lparr>activeEntry := first\<rparr>))))"

text \<open>
  The private \<open>captureScreenshot\<close> of the agent and the callback given to \<open>setInterval\<close>;
  \<open>shot\<close> tells whether the desktop screenshot service produced an image (it returns
  \<open>null\<close> on failure), and a failed upload is caught and changes nothing.
  \<open>timer_fires\<close> is the runtime invoking the callback of an installed timer;
  \<open>run_callbacks\<close> runs the callback itself, as a tick already pending would.
\<close>

definition agent_captureScreenshot :: "bool \<Rightarrow> agent \<Rightarrow> agent" where
  "agent_captureScreenshot shot a =
     (case activeEntry a of
        None \<Rightarrow> a
      | Some e \<Rightarrow>
          (let a1 = a\<lparr>captureAttempts := captureAttempts a @ [te_id e]\<rparr>
           in if shot
              then a1\<lparr>apiCalls := apiCalls a1 @ [PostScreenshot (te_id e) (projectId e) (taskId e)]\<rparr>
              else a1))"

definition interval_callback :: "bool \<Rightarrow> agent \<Rightarrow> agent" where
  "interval_callback shot a =
     (case activeEntry a of
        None \<Rightarrow> a
      | Some e \<Rightarrow> if isActive e then agent_captureScreenshot shot a else a)"

definition timer_fires :: "bool \<Rightarrow> agent \<Rightarrow> agent" where
  "timer_fires shot a =
     (case screenshotInterval a of None \<Rightarrow> a | Some period \<Rightarrow> interval_callback shot a)"

fun run_callbacks :: "bool list \<Rightarrow> agent \<Rightarrow> agent" where
  "run_callbacks [] a = a"
| "run_callbacks (shot # shots) a = run_callbacks shots (interval_callback shot a)"

fun run_timer :: "bool list \<Rightarrow> agent \<Rightarrow> agent" where
  "run_timer [] a = a"
| "run_timer (shot # shots) a = run_timer shots (timer_fires shot a)"

text \<open>
  What can happen to the agent, one event at a time: the timer fires, a callback that
  was pending runs, the UI calls \<open>startTracking\<close>, \<open>stopTracking\<close> or \<open>getActiveEntry\<close>
  (with the outcome of the API request the call makes), or the process is restarted:
  the fields in memory are reset, the store is kept and \<open>initialize\<close> runs.
  \<open>brings_back tid ev\<close> says that the server's answer in \<open>ev\<close> hands the agent a session
  with id \<open>tid\<close> as started or active; \<open>holds_session tid a\<close> that the agent has such a
  session in memory or in its cache.
\<close>

datatype agent_event =
    Tick bool
  | PendingTick bool
  | StartTracking "string + TimeEntry" StartTimeTrackingRequest
  | StopTracking "string + TimeEntry" oid
  | GetActiveEntry "string + TimeEntry list"
  | Restart

definition restart :: "agent \<Rightarrow> agent" where
  "restart a =
     initialize (a\<lparr>activeEntry := None, screenshotInterval := None, isInitialized := False\<rparr>)"

fun agent_step :: "agent_event \<Rightarrow> agent \<Rightarrow> agent" where
  "agent_step (Tick shot) a = timer_fires shot a"
| "agent_step (PendingTick shot) a = interval_callback shot a"
| "agent_step (StartTracking response dat) a = snd (startTracking response a dat)"
| "agent_step (StopTracking response tid) a = snd (stopTracking response a tid)"
| "agent_step (GetActiveEntry response) a = snd (getActiveEntry response a)"
| "agent_step Restart a = restart a"

fun agent_run :: "agent_event list \<Rightarrow> agent \<Rightarrow> agent" where
  "agent_run [] a = a"
| "agent_run (ev # evs) a = agent_run evs (agent_step ev a)"

fun brings_back :: "oid \<Rightarrow> agent_event \<Rightarrow> bool" where
  "brings_back tid (StartTracking (Inr e) dat) = (te_id e = tid)"
| "brings_back tid (StopTracking (Inr e) other) = False"
| "brings_back tid (GetActiveEntry (Inr (e # rest))) = (te_id e = tid)"
| "brings_back tid ev = False"

definition holds_session :: "oid \<Rightarrow> agent \<Rightarrow> bool" where
  "holds_session tid a =
     ((case activeEntry a of None \<Rightarrow> False | Some e \<Rightarrow> te_id e = tid) \<or>
      (case stored_activeTimeEntry a of None \<Rightarrow> False | Some e \<Rightarrow> te_id e = tid))"

text \<open>The getter \<open>trackingDuration\<close>, with \<open>now\<close> the value of \<open>Date.now()\<close>.\<close>

definition trackingDuration :: "millis \<Rightarrow> agent \<Rightarrow> int" where
  "trackingDuration now a =
     (case activeEntry a of
        None \<Rightarrow> 0
      | Some e \<Rightarrow> if \<not> isActive e then 0 else now - startTime e)"

text \<open>The web dashboard's \<open>loadData\<close>, for the part that reads \<open>/time-tracking/active\<close>:
  the values given to \<open>setActiveTimeEntry\<close> and \<open>setIsTracking\<close>.\<close>

definition loadData_active :: "TimeEntry list \<Rightarrow> TimeEntry option \<times> bool" where
  "loadData_active dat = ((case dat of [] \<Rightarrow> None | x # rest \<Rightarrow> Some x), dat \<noteq> [])"


section \<open>A concrete scenario\<close>

text \<open>
  Employee \<open>E\<close> is a member of project \<open>P\<close> (capture enabled, interval 600000 ms) and of
  its task \<open>Tk\<close>, but not of its task \<open>Tp\<close>; \<open>E\<close> is also a member of task \<open>Tq\<close>, which
  belongs to project \<open>Q\<close>, of which \<open>E\<close> is not a member. \<open>ex_db1\<close> is the store after \<open>E\<close> starts on \<open>P\<close> and \<open>Tk\<close> at
  time 0 with a successful capture, \<open>ex_db2\<close> the store after the stop at time 125000, and
  \<open>ex_db_raced\<close> a store in which \<open>E\<close> has two Active entries.
\<close>

definition ex_project :: Project where
  "ex_project = \<lparr>p_id = ''P'', p_name = ''Site'', p_employees = [''E''],
     screenshotSettings = Some \<lparr>screenshotEnabled = True, interval = 600000\<rparr>\<rparr>"

definition ex_other_project :: Project where
  "ex_other_project = \<lparr>p_id = ''Q'', p_name = ''Shop'', p_employees = [''F''],
     screenshotSettings = None\<rparr>"

definition ex_task :: Task where
  "ex_task = \<lparr>t_id = ''Tk'', t_name = ''Build'', t_projectId = ''P'', t_employees = [''E'']\<rparr>"

definition ex_foreign_task :: Task where
  "ex_foreign_task =
     \<lparr>t_id = ''Tq'', t_name = ''Sell'', t_projectId = ''Q'', t_employees = [''E'', ''F'']\<rparr>"

definition ex_private_task :: Task where
  "ex_private_task =
     \<lparr>t_id = ''Tp'', t_name = ''Audit'', t_projectId = ''P'', t_employees = [''F'']\<rparr>"

definition ex_db :: db where
  "ex_db = \<lparr>timeentries = [], projects = [ex_project, ex_other_project],
     tasks = [ex_task, ex_foreign_task, ex_private_task], screenshotDocs = []\<rparr>"

definition ex_capture :: capture_env where
  "ex_capture = \<lparr>grabOk = True, writeFileOk = True, statSize = Some 2048,
     imageInfo = Some (Some 1920, Some 1080), recordId = Some ''S1'', capturedAt = 5\<rparr>"

definition ex_env :: start_env where
  "ex_env = \<lparr>newId = ''TE1'', device = ''desktop'', createdAt = 0, savedAt = 2,
     capture = ex_capture, shotSavedAt = 9\<rparr>"

definition ex_env2 :: start_env where
  "ex_env2 = \<lparr>newId = ''TE2'', device = ''laptop'', createdAt = 1, savedAt = 3,
     capture = ex_capture\<lparr>grabOk := False\<rparr>, shotSavedAt = 10\<rparr>"

definition ex_req :: StartTimeTrackingRequest where
  "ex_req = \<lparr>rq_projectId = ''P'', rq_taskId = ''Tk'', rq_description = None\<rparr>"

definition ex_foreign_req :: StartTimeTrackingRequest where
  "ex_foreign_req = \<lparr>rq_projectId = ''P'', rq_taskId = ''Tq'', rq_description = None\<rparr>"

definition ex_stop_env :: stop_env where
  "ex_stop_env = \<lparr>stoppedAt = 125000, stopSavedAt = 125001, descSavedAt = 125002\<rparr>"

definition ex_stop_req :: StopTimeTrackingRequest where
  "ex_stop_req = \<lparr>rq_timeEntryId = ''TE1'', rq_stopDescription = None\<rparr>"

definition ex_entry1 :: TimeEntry where
  "ex_entry1 = \<lparr>te_id = ''TE1'', employeeId = ''E'', projectId = ''P'', taskId = ''Tk'',
     startTime = 0, endTime = None, duration = 9, description = None, isActive = True,
     screenshots = [''S1''], deviceInfo = ''desktop''\<rparr>"

definition ex_entry2 :: TimeEntry where
  "ex_entry2 = \<lparr>te_id = ''TE2'', employeeId = ''E'', projectId = ''P'', taskId = ''Tk'',
     startTime = 1, endTime = None, duration = 2, description = None, isActive = True,
     screenshots = [], deviceInfo = ''laptop''\<rparr>"

definition ex_stopped1 :: TimeEntry where
  "ex_stopped1 = ex_entry1\<lparr>endTime := Some 125000, duration := 125000, isActive := False\<rparr>"

definition ex_shot1 :: Screenshot where
  "ex_shot1 = \<lparr>s_id = ''S1'', s_employeeId = ''E'', s_timeEntryId = ''TE1'',
     s_projectId = ''P'', s_taskId = ''Tk'', fileSize = 2048, width = 1920, height = 1080,
     takenAt = 5\<rparr>"

definition ex_db1 :: db where
  "ex_db1 = ex_db\<lparr>timeentries := [ex_entry1], screenshotDocs := [ex_shot1]\<rparr>"

definition ex_db2 :: db where
  "ex_db2 = ex_db\<lparr>timeentries := [ex_stopped1], screenshotDocs := [ex_shot1]\<rparr>"

definition ex_db_raced :: db where
  "ex_db_raced = ex_db\<lparr>timeentries := [ex_entry1, ex_entry2], screenshotDocs := [ex_shot1]\<rparr>"

definition started_reply :: "TimeEntry \<Rightarrow> reply" where
  "started_reply te = \<lparr>status = 201, success = True, data = te,
     message = ''Time tracking started successfully''\<rparr>"

definition stopped_reply :: "TimeEntry \<Rightarrow> reply" where
  "stopped_reply te = \<lparr>status = 200, success = True, data = te,
     message = ''Time tracking stopped successfully''\<rparr>"

text \<open>An agent that has a token, settings asking for a capture every second, and nothing
  else; the same agent while it tracks \<open>ex_entry1\<close>; and an agent restarted with
  \<open>ex_entry1\<close> in its cache and no interval in its settings.\<close>

definition ex_agent :: agent where
  "ex_agent = \<lparr>activeEntry = None, screenshotInterval = None, isInitialized = True,
     auth_token = Some ''jwt'', stored_activeTimeEntry = None,
     stored_settings = Some \<lparr>s_screenshotInterval = Some 1000\<rparr>,
     apiCalls = [], captureAttempts = []\<rparr>"

definition ex_agent_tracking :: agent where
  "ex_agent_tracking = ex_agent\<lparr>activeEntry := Some ex_entry1, screenshotInterval := Some 1000,
     stored_activeTimeEntry := Some ex_entry1, apiCalls := [PostStart ''P'' ''Tk'']\<rparr>"

definition ex_agent_restarted :: agent where
  "ex_agent_restarted = ex_agent\<lparr>isInitialized := False, stored_activeTimeEntry := Some ex_entry1,
     stored_settings := Some \<lparr>s_screenshotInterval = None\<rparr>\<rparr>"

lemmas ex_defs =
  ex_project_def ex_other_project_def ex_task_def ex_foreign_task_def ex_private_task_def
  ex_db_def ex_capture_def
  ex_env_def ex_env2_def ex_req_def ex_foreign_req_def ex_stop_env_def ex_stop_req_def
  ex_entry1_def ex_entry2_def ex_stopped1_def ex_shot1_def ex_db1_def ex_db2_def
  ex_db_raced_def started_reply_def stopped_reply_def ex_agent_def ex_agent_tracking_def
  ex_agent_restarted_def

lemmas server_defs =
  startTimeTracking_def start_check_def start_commit_def stopTimeTracking_def
  getActiveTimeEntries_def findOneActive_def findOneActiveById_def findActiveEntries_def
  Project_findById_def Task_findById_def insertOne_def save_loaded_def pre_save_def
  stop_fields_def addScreenshot_fields_def updateDescription_fields_def valid_duration_def
  valid_description_def screenshotEnabled_of_def captureScreenshot_def
  captureScreenshot_try_def truthy_def Let_def

lemmas agent_defs =
  initialize_def startTracking_def stopTracking_def getActiveEntry_def
  startScreenshotCapture_def stopScreenshotCapture_def configured_interval_def
  agent_captureScreenshot_def interval_callback_def timer_fires_def trackingDuration_def
  truthy_def Let_def


section \<open>Basic facts about the store\<close>

lemma length_trim: "length (trim s) \<le> length s"
proof -
  have "length (dropWhile is_space (rev (dropWhile is_space s))) \<le> length (rev (dropWhile is_space s))"
    by (rule length_dropWhile_le)
  also have "\<dots> \<le> length s" by (simp add: length_dropWhile_le)
  finally show ?thesis by (simp add: trim_def)
qed

lemma map_te_id_replaceOne: "map te_id (replaceOne te xs) = map te_id xs"
  by (induction xs) auto

lemma replaceOne_append_fresh:
  "te_id te \<notin> set (map te_id xs) \<Longrightarrow> te_id y = te_id te \<Longrightarrow> replaceOne te (xs @ [y]) = xs @ [te]"
  by (induction xs) auto


lemma captureScreenshot_not_Inl [simp]: "captureScreenshot c eid teid pid tid d \<noteq> Inl e"
  by (simp add: captureScreenshot_def split: sum.splits)

lemma captureScreenshot_Inr:
  "captureScreenshot c eid teid pid tid d = Inr (r, d') \<Longrightarrow>
     timeentries d' = timeentries d \<and> projects d' = projects d \<and> tasks d' = tasks d"
  by (auto simp: captureScreenshot_def split: sum.splits)

lemma start_commit_Inl:
  "start_commit env d eid req p t = (Inl e, d') \<Longrightarrow> d' = d"
  by (auto simp: start_commit_def Let_def insertOne_def save_loaded_def pre_save_def
      split: if_splits sum.splits option.splits prod.splits)

lemma start_commit_Inr:
  assumes "start_commit env d eid req p t = (Inr r, d')"
  shows "newId env \<notin> set (map te_id (timeentries d)) \<and>
         timeentries d' = timeentries d @ [data r] \<and>
         projects d' = projects d \<and> tasks d' = tasks d \<and>
         te_id (data r) = newId env \<and> employeeId (data r) = eid \<and>
         projectId (data r) = rq_projectId req \<and> taskId (data r) = rq_taskId req \<and>
         isActive (data r) \<and> endTime (data r) = None \<and>
         startTime (data r) = createdAt env \<and> status r = 201 \<and>
         length (screenshots (data r)) \<le> 1"
  using assms
  by (auto simp: start_commit_def Let_def insertOne_def save_loaded_def pre_save_def
      addScreenshot_fields_def replaceOne_append_fresh
      split: if_splits sum.splits option.splits prod.splits
      dest!: captureScreenshot_Inr)

lemma start_commit_succeeds:
  assumes fresh: "newId env \<notin> set (map te_id (timeentries d))"
    and desc: "case rq_description req of None \<Rightarrow> True | Some dsc \<Rightarrow> length dsc \<le> 500"
  shows "\<exists>r d'. start_commit env d eid req p t = (Inr r, d')"
proof -
  have "length (trim dsc) \<le> 500" if "rq_description req = Some dsc" for dsc
    using desc that length_trim [of dsc] by simp
  then have valid: "valid_description \<lparr>te_id = newId env, employeeId = eid,
      projectId = rq_projectId req, taskId = rq_taskId req, startTime = createdAt env,
      endTime = None, duration = 0, description = map_option trim (rq_description req),
      isActive = True, screenshots = [], deviceInfo = device env\<rparr>"
    by (auto simp: valid_description_def split: option.splits)
  show ?thesis
    using fresh valid
    by (auto simp: start_commit_def Let_def insertOne_def save_loaded_def pre_save_def
        split: sum.splits option.splits prod.splits)
qed


lemma replaceOne_twice:
  "te_id a = te_id b \<Longrightarrow> replaceOne a (replaceOne b xs) = replaceOne a xs"
  by (induction xs) auto

lemma findOneActive_None: "findOneActive e d = None \<longleftrightarrow> findActiveEntries e d = []"
  by (auto simp: findOneActive_def findActiveEntries_def find_None_iff filter_empty_conv)

lemma findOneActiveById_Some:
  "findOneActiveById tid e d = Some te \<Longrightarrow>
     te \<in> set (timeentries d) \<and> te_id te = tid \<and> employeeId te = e \<and> isActive te"
  by (auto simp: findOneActiveById_def find_Some_iff)

lemma findOneActiveById_None:
  "findOneActiveById tid e d = None \<longleftrightarrow>
     \<not> (\<exists>te \<in> set (timeentries d). te_id te = tid \<and> employeeId te = e \<and> isActive te)"
  by (auto simp: findOneActiveById_def find_None_iff)

lemma start_check_Inr:
  "start_check d user req = Inr (eid, p, t) \<Longrightarrow>
     user = Some eid \<and> eid \<noteq> [] \<and> findOneActive eid d = None \<and>
     Project_findById (rq_projectId req) d = Some p \<and> eid \<in> set (p_employees p) \<and>
     Task_findById (rq_taskId req) d = Some t \<and> eid \<in> set (t_employees t)"
  by (auto simp: start_check_def split: option.splits if_splits)

lemma start_Inl: "startTimeTracking env d user req = (Inl e, d') \<Longrightarrow> d' = d"
  by (auto simp: startTimeTracking_def split: sum.splits dest: start_commit_Inl)

lemma start_Inr:
  assumes "startTimeTracking env d user req = (Inr r, d')"
  shows "\<exists>eid. user = Some eid \<and> eid \<noteq> [] \<and> findOneActive eid d = None \<and>
           newId env \<notin> set (map te_id (timeentries d)) \<and>
           timeentries d' = timeentries d @ [data r] \<and>
           projects d' = projects d \<and> tasks d' = tasks d \<and>
           te_id (data r) = newId env \<and> employeeId (data r) = eid \<and>
           isActive (data r) \<and> endTime (data r) = None \<and>
           startTime (data r) = createdAt env \<and> status r = 201"
  using assms
  by (auto simp: startTimeTracking_def split: sum.splits
      dest!: start_commit_Inr start_check_Inr)

lemma stop_Inr:
  assumes "stopTimeTracking env d user req = (Inr r, d')"
  shows "\<exists>eid te. user = Some eid \<and> eid \<noteq> [] \<and>
           findOneActiveById (rq_timeEntryId req) eid d = Some te \<and>
           timeentries d' = replaceOne (data r) (timeentries d) \<and>
           projects d' = projects d \<and> tasks d' = tasks d \<and>
           te_id (data r) = te_id te \<and> employeeId (data r) = employeeId te \<and>
           startTime (data r) = startTime te \<and>
           \<not> isActive (data r) \<and> endTime (data r) = Some (stoppedAt env) \<and>
           duration (data r) = stoppedAt env - startTime te \<and> status r = 200"
  using assms
  by (auto simp: stopTimeTracking_def Let_def save_loaded_def pre_save_def stop_fields_def
      updateDescription_fields_def replaceOne_twice
      split: if_splits sum.splits option.splits prod.splits)

lemma stop_cases:
  obtains (unchanged) "snd (stopTimeTracking env d user req) = d"
  | (stopped) eid te te' where "user = Some eid"
      and "findOneActiveById (rq_timeEntryId req) eid d = Some te"
      and "te_id te' = te_id te" and "employeeId te' = employeeId te" and "\<not> isActive te'"
      and "snd (stopTimeTracking env d user req) = d\<lparr>timeentries := replaceOne te' (timeentries d)\<rparr>"
proof (cases user)
  case None
  then have "snd (stopTimeTracking env d user req) = d"
    by (simp add: stopTimeTracking_def)
  then show ?thesis by (rule unchanged)
next
  case (Some eid)
  show ?thesis
  proof (cases "findOneActiveById (rq_timeEntryId req) eid d")
    case None
    with Some have "snd (stopTimeTracking env d user req) = d"
      by (simp add: stopTimeTracking_def)
    then show ?thesis by (rule unchanged)
  next
    case found: (Some te)
    define a where "a = pre_save (stopSavedAt env) (stop_fields (stoppedAt env) te)"
    define b where "b = (\<lambda>dsc. pre_save (descSavedAt env) (updateDescription_fields dsc a))"
    have a: "te_id a = te_id te" "employeeId a = employeeId te" "\<not> isActive a"
      by (simp_all add: a_def pre_save_def stop_fields_def)
    have b: "te_id (b dsc) = te_id te" "employeeId (b dsc) = employeeId te" "\<not> isActive (b dsc)"
      for dsc
      by (simp_all add: b_def a_def pre_save_def stop_fields_def updateDescription_fields_def)
    have "snd (stopTimeTracking env d user req) = d
        \<or> snd (stopTimeTracking env d user req) = d\<lparr>timeentries := replaceOne a (timeentries d)\<rparr>
        \<or> (\<exists>dsc. snd (stopTimeTracking env d user req)
               = d\<lparr>timeentries := replaceOne (b dsc) (timeentries d)\<rparr>)"
      using Some found a b [unfolded b_def]
      by (auto simp: stopTimeTracking_def Let_def save_loaded_def replaceOne_twice
          a_def [symmetric] b_def split: option.splits)
    then consider "snd (stopTimeTracking env d user req) = d"
      | "snd (stopTimeTracking env d user req) = d\<lparr>timeentries := replaceOne a (timeentries d)\<rparr>"
      | dsc where "snd (stopTimeTracking env d user req)
               = d\<lparr>timeentries := replaceOne (b dsc) (timeentries d)\<rparr>"
      by blast
    then show ?thesis
    proof cases
      case 1
      then show ?thesis by (rule unchanged)
    next
      case 2
      from Some found a 2 show ?thesis by (rule stopped)
    next
      case 3
      from Some found b 3 show ?thesis by (rule stopped)
    qed
  qed
qed




lemma ex_reachable: "reachable ex_db"
  by (rule reachable.empty) (simp add: ex_db_def)

section \<open>One Active entry per employee\<close>

lemma findActiveEntries_append:
  "timeentries d' = timeentries d @ [te] \<Longrightarrow>
     findActiveEntries e d' =
       findActiveEntries e d @ (if isActive te \<and> employeeId te = e then [te] else [])"
  by (simp add: findActiveEntries_def)










text \<open>Two steps of one handler in a row are the handler run to completion.\<close>

lemma run_schedule_sequential:
  "run_schedule [0, 0] ([Ready user req env], d)
     = ([Done (fst (startTimeTracking env d user req))], snd (startTimeTracking env d user req))"
  by (auto simp: handler_step_def startTimeTracking_def split: sum.splits prod.splits)

text \<open>
  Whenever the guards pass for a request of employee \<open>e\<close>, two handlers for it that both
  run their guards before either saves are both answered with success, and \<open>e\<close> has two
  Active entries afterwards.
\<close>

lemma interleaved_starts_both_succeed:
  assumes chk: "start_check d (Some e) req = Inr (e, p, t)"
    and fresh: "newId envA \<notin> set (map te_id (timeentries d))"
      "newId envB \<notin> set (map te_id (timeentries d))" "newId envA \<noteq> newId envB"
    and desc: "case rq_description req of None \<Rightarrow> True | Some dsc \<Rightarrow> length dsc \<le> 500"
  shows "\<exists>rA rB d'. run_schedule [0, 1, 0, 1] ([Ready (Some e) req envA, Ready (Some e) req envB], d)
            = ([Done (Inr rA), Done (Inr rB)], d') \<and>
          findActiveEntries e d' = [data rA, data rB]"
proof -
  from fresh(1) desc obtain rA dA where cA: "start_commit envA d e req p t = (Inr rA, dA)"
    using start_commit_succeeds [of envA d req e p t] by auto
  then have dA: "timeentries dA = timeentries d @ [data rA]" "te_id (data rA) = newId envA"
    "employeeId (data rA) = e" "isActive (data rA)"
    by (auto dest!: start_commit_Inr)
  with fresh have "newId envB \<notin> set (map te_id (timeentries dA))" by auto
  with desc obtain rB dB where cB: "start_commit envB dA e req p t = (Inr rB, dB)"
    using start_commit_succeeds [of envB dA req e p t] by auto
  then have dB: "timeentries dB = timeentries dA @ [data rB]"
    "employeeId (data rB) = e" "isActive (data rB)"
    by (auto dest!: start_commit_Inr)
  from chk have "findActiveEntries e d = []"
    by (auto dest!: start_check_Inr simp: findOneActive_None)
  with dA dB have "findActiveEntries e dB = [data rA, data rB]"
    by (simp add: findActiveEntries_append [OF dB(1)] findActiveEntries_append [OF dA(1)])
  moreover have "run_schedule [0, 1, 0, 1] ([Ready (Some e) req envA, Ready (Some e) req envB], d)
            = ([Done (Inr rA), Done (Inr rB)], dB)"
    using chk cA cB by (simp add: handler_step_def)
  ultimately show ?thesis by blast
qed

text \<open>
  Claim C2 asks that no interleaving of two starts by one employee leave two Active
  entries, every loser being answered with the 400 error. The code does not keep it:
  the handler reads and inserts in separate steps, and no unique index covers an
  employee's Active entry. Below, two starts by \<open>E\<close> both pass the guards before either
  inserts; both are answered 201 and the store ends with two Active entries of \<open>E\<close>.
  Run one after the other, the same two requests end with one entry and one 400 answer.
\<close>

theorem interleaved_starts_leave_two_active:
  "reachable ex_db \<and>
   run_schedule [0, 1, 0, 1]
      ([Ready (Some ''E'') ex_req ex_env, Ready (Some ''E'') ex_req ex_env2], ex_db)
     = ([Done (Inr (started_reply ex_entry1)), Done (Inr (started_reply ex_entry2))],
        ex_db_raced) \<and>
   findActiveEntries ''E'' ex_db_raced = [ex_entry1, ex_entry2] \<and>
   activeCount ex_db_raced ''E'' = 2 \<and>
   run_schedule [0, 0, 1, 1]
      ([Ready (Some ''E'') ex_req ex_env, Ready (Some ''E'') ex_req ex_env2], ex_db)
     = ([Done (Inr (started_reply ex_entry1)),
         Done (Inl (AppError ''Employee already has an active time entry'' 400))], ex_db1)"
  by (simp add: ex_reachable) (simp add: ex_defs server_defs handler_step_def activeCount_def)

section \<open>Stopping a session\<close>

lemma find_replaceOne:
  "te_id te' = tid \<Longrightarrow> \<exists>x \<in> set xs. te_id x = tid \<Longrightarrow>
     find (\<lambda>x. te_id x = tid) (replaceOne te' xs) = Some te'"
  by (induction xs) auto

lemma replaceOne_unique:
  "distinct (map te_id xs) \<Longrightarrow> y \<in> set (replaceOne te' xs) \<Longrightarrow> te_id y = te_id te' \<Longrightarrow> y = te'"
proof (induction xs)
  case Nil
  then show ?case by simp
next
  case (Cons x xs)
  show ?case
  proof (cases "te_id x = te_id te'")
    case True
    with Cons.prems show ?thesis by (auto simp: image_iff)
  next
    case False
    with Cons show ?thesis by auto
  qed
qed

lemma stop_then_not_found:
  assumes dist: "distinct (map te_id (timeentries d))"
    and stop: "stopTimeTracking env d (Some e) req = (Inr r, d1)"
  shows "findOneActiveById (rq_timeEntryId req) e d1 = None"
    and "find (\<lambda>te. te_id te = rq_timeEntryId req) (timeentries d1) = Some (data r)"
proof -
  from stop obtain te where te: "findOneActiveById (rq_timeEntryId req) e d = Some te"
    and d1: "timeentries d1 = replaceOne (data r) (timeentries d)"
    and r: "te_id (data r) = te_id te" "\<not> isActive (data r)"
    by (auto dest!: stop_Inr)
  from te have mem: "te \<in> set (timeentries d)" "te_id te = rq_timeEntryId req"
    by (auto dest: findOneActiveById_Some)
  have "\<not> isActive y" if "y \<in> set (timeentries d1)" "te_id y = rq_timeEntryId req" for y
  proof -
    from that d1 r mem have "y = data r"
      using replaceOne_unique [OF dist, of y "data r"] by simp
    with r show ?thesis by simp
  qed
  then show "findOneActiveById (rq_timeEntryId req) e d1 = None"
    by (auto simp: findOneActiveById_None)
  from mem r show "find (\<lambda>te. te_id te = rq_timeEntryId req) (timeentries d1) = Some (data r)"
    unfolding d1 by (intro find_replaceOne) auto
qed



section \<open>Durations\<close>






section \<open>The guards of a start\<close>




section \<open>The capture at start\<close>







section \<open>The agent at startup\<close>

text \<open>
  Claim C3, amended. On startup, when a token is stored, \<open>initialize\<close> reads the cached
  active session and, whenever one is present and marked active, takes it as the active
  entry and resumes screenshot capture from the cache alone: it sends no request to the
  server, keeps the cache as it is, and installs the timer (with the configured period,
  unless one is already installed).
\<close>

theorem initialize_resumes_from_cache:
  assumes "\<not> isInitialized a" and "truthy (auth_token a)"
    and "stored_activeTimeEntry a = Some entry" and "isActive entry"
  shows "activeEntry (initialize a) = Some entry \<and>
         screenshotInterval (initialize a)
           = Some (case screenshotInterval a of None \<Rightarrow> configured_interval a | Some p \<Rightarrow> p) \<and>
         apiCalls (initialize a) = apiCalls a \<and>
         stored_activeTimeEntry (initialize a) = Some entry \<and>
         isInitialized (initialize a)"
  using assms
  by (simp add: initialize_def startScreenshotCapture_def configured_interval_def Let_def
      split: option.splits)

theorem initialize_resumes_from_cache_witness:
  "activeEntry (initialize ex_agent_restarted) = Some ex_entry1 \<and>
   screenshotInterval (initialize ex_agent_restarted) = Some 300000 \<and>
   apiCalls (initialize ex_agent_restarted) = [] \<and>
   stored_activeTimeEntry (initialize ex_agent_restarted) = Some ex_entry1 \<and>
   isInitialized (initialize ex_agent_restarted)"
proof -
  have 1: "\<not> isInitialized ex_agent_restarted" by (simp add: ex_defs)
  have 2: "truthy (auth_token ex_agent_restarted)" by (simp add: ex_defs truthy_def)
  have 3: "stored_activeTimeEntry ex_agent_restarted = Some ex_entry1" by (simp add: ex_defs)
  have 4: "isActive ex_entry1" by (simp add: ex_defs)
  from initialize_resumes_from_cache [OF 1 2 3 4]
  show ?thesis by (simp add: ex_defs configured_interval_def)
qed

text \<open>
  Against claim C3 as first stated: the server's store is \<open>ex_db2\<close>, in which the session
  is stopped and the active query for \<open>E\<close> returns no entry; the restarted agent sends no
  \<open>GetActive\<close> request, keeps the cached session, installs the timer, and the next tick
  begins a capture for the stopped session.
\<close>

theorem initialize_ignores_server_counterexample:
  "getActiveTimeEntries ex_db2 (Some ''E'') = Inr [] \<and>
   stored_activeTimeEntry ex_agent_restarted = Some ex_entry1 \<and>
   GetActive \<notin> set (apiCalls (initialize ex_agent_restarted)) \<and>
   stored_activeTimeEntry (initialize ex_agent_restarted) = Some ex_entry1 \<and>
   screenshotInterval (initialize ex_agent_restarted) = Some 300000 \<and>
   captureAttempts (timer_fires True (initialize ex_agent_restarted)) = [''TE1'']"
  by (simp add: ex_defs server_defs agent_defs)

section \<open>The capture schedule\<close>

text \<open>
  Claim C7, amended. Every successful \<open>startTracking\<close> of the agent (no session held and
  no timer installed before) installs a recurring timer whose period is the agent's
  stored \<open>settings.screenshotInterval\<close>, or 300000 ms when the settings or the field are
  absent, with no floor applied. The project's screenshot settings do not enter: the
  agent does not read them, and on the server the project's interval has no effect on
  what a start does.
\<close>

theorem schedule_interval_from_agent_settings:
  assumes "activeEntry a = None" and "screenshotInterval a = None"
  shows "(startTracking (Inr entry) a dat = (res, a') \<longrightarrow>
           res = Inr entry \<and> activeEntry a' = Some entry \<and>
           screenshotInterval a' =
             Some (case stored_settings a of
                     None \<Rightarrow> 300000
                   | Some s \<Rightarrow> (case s_screenshotInterval s of None \<Rightarrow> 300000 | Some i \<Rightarrow> i))) \<and>
         start_commit env d eid req
             (p\<lparr>screenshotSettings := Some \<lparr>screenshotEnabled = en, interval = i\<rparr>\<rparr>) t
           = start_commit env d eid req
             (p\<lparr>screenshotSettings := Some \<lparr>screenshotEnabled = en, interval = j\<rparr>\<rparr>) t"
proof (intro conjI impI)
  have enabled: "screenshotEnabled_of
      (p\<lparr>screenshotSettings := Some \<lparr>screenshotEnabled = en, interval = k\<rparr>\<rparr>) = en" for k
    by (simp add: screenshotEnabled_of_def)
  show "start_commit env d eid req
             (p\<lparr>screenshotSettings := Some \<lparr>screenshotEnabled = en, interval = i\<rparr>\<rparr>) t
           = start_commit env d eid req
             (p\<lparr>screenshotSettings := Some \<lparr>screenshotEnabled = en, interval = j\<rparr>\<rparr>) t"
    unfolding start_commit_def enabled ..
qed (use assms in \<open>auto simp: startTracking_def startScreenshotCapture_def
      configured_interval_def Let_def split: option.splits\<close>)

theorem schedule_interval_from_agent_settings_witness:
  "startTracking (Inr ex_entry1) ex_agent ex_req = (Inr ex_entry1, ex_agent_tracking) \<and>
   screenshotInterval ex_agent_tracking = Some 1000 \<and>
   screenshotInterval (snd (startTracking (Inr ex_entry1) (ex_agent\<lparr>stored_settings := None\<rparr>) ex_req))
     = Some 300000"
proof -
  have 1: "activeEntry ex_agent = None" "activeEntry (ex_agent\<lparr>stored_settings := None\<rparr>) = None"
    by (simp_all add: ex_defs)
  have 2: "screenshotInterval ex_agent = None"
    "screenshotInterval (ex_agent\<lparr>stored_settings := None\<rparr>) = None"
    by (simp_all add: ex_defs)
  have 3: "startTracking (Inr ex_entry1) ex_agent ex_req = (Inr ex_entry1, ex_agent_tracking)"
    by (simp add: ex_defs agent_defs)
  from schedule_interval_from_agent_settings [OF 1(1) 2(1), of ex_entry1 ex_req
      "Inr ex_entry1" ex_agent_tracking]
    schedule_interval_from_agent_settings [OF 1(2) 2(2), of ex_entry1 ex_req
      "fst (startTracking (Inr ex_entry1) (ex_agent\<lparr>stored_settings := None\<rparr>) ex_req)"
      "snd (startTracking (Inr ex_entry1) (ex_agent\<lparr>stored_settings := None\<rparr>) ex_req)"]
    3
  show ?thesis by (simp add: ex_defs)
qed

text \<open>
  Against claim C7 as first stated: project \<open>P\<close> enables capture with an interval of
  600000 ms; the agent's settings say 1000 ms; after the server has started the session
  and the agent has taken the reply, the timer's period is 1000 ms, which is neither the
  project's interval nor at least one minute.
\<close>

theorem schedule_interval_counterexample:
  "startTimeTracking ex_env ex_db (Some ''E'') ex_req = (Inr (started_reply ex_entry1), ex_db1) \<and>
   Project_findById ''P'' ex_db = Some ex_project \<and>
   screenshotSettings ex_project = Some \<lparr>screenshotEnabled = True, interval = 600000\<rparr> \<and>
   start_interval ex_project = 600000 \<and>
   screenshotInterval (snd (startTracking (Inr (data (started_reply ex_entry1))) ex_agent ex_req))
     = Some 1000 \<and>
   (1000::int) \<noteq> 600000 \<and> (1000::int) < 60000"
  by (simp add: ex_defs server_defs agent_defs start_interval_def)

section \<open>The active query\<close>

text \<open>
  Claim C8, amended. \<open>getActiveEntry\<close> returns at most one entry or absence. When the
  agent holds no entry it asks the server, and whatever the number of entries in the
  answer, it returns the first one (absence for an empty answer) and raises no error.
\<close>

theorem getActiveEntry_takes_first:
  assumes "activeEntry a = None"
  shows "getActiveEntry (Inr dat) a = (res, a') \<longrightarrow>
           res = Inr (case dat of [] \<Rightarrow> None | x # rest \<Rightarrow> Some x) \<and>
           activeEntry a' = (case dat of [] \<Rightarrow> None | x # rest \<Rightarrow> Some x)"
  using assms by (auto simp: getActiveEntry_def Let_def)

theorem getActiveEntry_takes_first_witness:
  "getActiveEntry (Inr [ex_entry2, ex_entry1]) ex_agent
     = (Inr (Some ex_entry2), ex_agent\<lparr>activeEntry := Some ex_entry2, apiCalls := [GetActive]\<rparr>) \<and>
   fst (getActiveEntry (Inr []) ex_agent) = Inr None"
proof -
  have 1: "activeEntry ex_agent = None" by (simp add: ex_defs)
  from getActiveEntry_takes_first [OF 1, of "[ex_entry2, ex_entry1]"
      "fst (getActiveEntry (Inr [ex_entry2, ex_entry1]) ex_agent)"
      "snd (getActiveEntry (Inr [ex_entry2, ex_entry1]) ex_agent)"]
    getActiveEntry_takes_first [OF 1, of "[]"
      "fst (getActiveEntry (Inr []) ex_agent)" "snd (getActiveEntry (Inr []) ex_agent)"]
  show ?thesis by (simp add: ex_defs agent_defs)
qed

text \<open>
  Against claim C8 as first stated: the store holds two Active entries of \<open>E\<close>; the
  server's active query answers with both, the agent's \<open>getActiveEntry\<close> returns the
  first as a success, and so does the dashboard's \<open>loadData\<close>.
\<close>

theorem getActiveEntry_two_active_counterexample:
  "getActiveTimeEntries ex_db_raced (Some ''E'') = Inr [ex_entry1, ex_entry2] \<and>
   fst (getActiveEntry (Inr [ex_entry1, ex_entry2]) ex_agent) = Inr (Some ex_entry1) \<and>
   loadData_active [ex_entry1, ex_entry2] = (Some ex_entry1, True)"
  by (simp add: ex_defs server_defs agent_defs loadData_active_def)

section \<open>No capture after stop\<close>

text \<open>
  On the server a stopped session stays stopped: no later start or stop makes an entry
  with its id Active, a later start never returns its id, and the active query never
  lists it. So no answer of the server brings the session back to the agent.
\<close>

lemma set_replaceOne: "set (replaceOne te xs) \<subseteq> insert te (set xs)"
  by (induction xs) auto

lemma stopped_for_good_start:
  assumes "stopped_for_good tid d"
  shows "stopped_for_good tid (snd (startTimeTracking env d user req)) \<and>
         (\<forall>r. fst (startTimeTracking env d user req) = Inr r \<longrightarrow> te_id (data r) \<noteq> tid)"
proof (cases "startTimeTracking env d user req")
  case (Pair res d')
  show ?thesis
  proof (cases res)
    case (Inl err)
    with Pair have "d' = d" by (auto dest: start_Inl)
    with Pair Inl assms show ?thesis by simp
  next
    case (Inr r)
    with Pair have "newId env \<notin> set (map te_id (timeentries d))"
      "timeentries d' = timeentries d @ [data r]" "te_id (data r) = newId env"
      by (auto dest!: start_Inr)
    with Pair Inr assms show ?thesis
      by (auto simp: stopped_for_good_def)
  qed
qed

lemma stopped_for_good_stop:
  assumes "stopped_for_good tid d"
  shows "stopped_for_good tid (snd (stopTimeTracking env d user req))"
proof (cases rule: stop_cases [of env d user req])
  case unchanged
  with assms show ?thesis by simp
next
  case (stopped eid te te')
  have "te_id ` set (replaceOne te' (timeentries d)) = te_id ` set (timeentries d)"
    using map_te_id_replaceOne [of te' "timeentries d"] by (metis set_map)
  moreover have "\<not> isActive x" if "x \<in> set (replaceOne te' (timeentries d))" "te_id x = tid" for x
    using that set_replaceOne [of te' "timeentries d"] stopped(5) assms
    by (auto simp: stopped_for_good_def)
  moreover from assms have "tid \<in> te_id ` set (timeentries d)"
    by (auto simp: stopped_for_good_def)
  ultimately have "tid \<in> te_id ` set (replaceOne te' (timeentries d))"
    and "\<forall>x \<in> set (replaceOne te' (timeentries d)). te_id x = tid \<longrightarrow> \<not> isActive x"
    by auto
  then have "stopped_for_good tid (d\<lparr>timeentries := replaceOne te' (timeentries d)\<rparr>)"
    unfolding stopped_for_good_def by force
  with stopped(6) show ?thesis by simp
qed

lemma stopped_for_good_query:
  "stopped_for_good tid d \<Longrightarrow> getActiveTimeEntries d user = Inr es \<Longrightarrow>
     \<forall>e \<in> set es. te_id e \<noteq> tid"
  by (auto simp: stopped_for_good_def getActiveTimeEntries_def findActiveEntries_def
      split: option.splits if_splits)

lemma stop_makes_stopped_for_good:
  assumes "distinct (map te_id (timeentries d))"
    and "stopTimeTracking env d (Some e) req = (Inr r, d1)"
  shows "stopped_for_good (rq_timeEntryId req) d1"
proof -
  from assms(2) obtain te where te: "findOneActiveById (rq_timeEntryId req) e d = Some te"
    and d1: "timeentries d1 = replaceOne (data r) (timeentries d)"
    and r: "te_id (data r) = te_id te" "\<not> isActive (data r)"
    by (auto dest!: stop_Inr)
  from te have mem: "te \<in> set (timeentries d)" "te_id te = rq_timeEntryId req"
    by (auto dest: findOneActiveById_Some)
  from assms have "find (\<lambda>te. te_id te = rq_timeEntryId req) (timeentries d1) = Some (data r)"
    by (rule stop_then_not_found)
  then have "data r \<in> set (timeentries d1)" by (auto simp: find_Some_iff)
  moreover have "\<not> isActive y" if "y \<in> set (timeentries d1)" "te_id y = rq_timeEntryId req" for y
  proof -
    from that d1 r mem have "y = data r"
      using replaceOne_unique [OF assms(1), of y "data r"] by simp
    with r show ?thesis by simp
  qed
  ultimately show ?thesis using r mem by (auto simp: stopped_for_good_def)
qed

lemma run_callbacks_idle:
  "activeEntry a = None \<Longrightarrow> run_callbacks shots a = a"
  by (induction shots) (simp_all add: interval_callback_def)

lemma run_timer_idle:
  "screenshotInterval a = None \<Longrightarrow> run_timer shots a = a"
  by (induction shots) (simp_all add: timer_fires_def)

lemma agent_step_keeps:
  assumes "\<not> holds_session tid a" and "\<not> brings_back tid ev"
  shows "\<not> holds_session tid (agent_step ev a) \<and>
         count_list (captureAttempts (agent_step ev a)) tid = count_list (captureAttempts a) tid"
proof (cases ev)
  case (Tick shot)
  with assms show ?thesis
    by (auto simp: holds_session_def timer_fires_def interval_callback_def
        agent_captureScreenshot_def Let_def split: option.splits)
next
  case (PendingTick shot)
  with assms show ?thesis
    by (auto simp: holds_session_def interval_callback_def
        agent_captureScreenshot_def Let_def split: option.splits)
next
  case (StartTracking response dat)
  with assms show ?thesis
    by (cases response)
      (auto simp: holds_session_def startTracking_def startScreenshotCapture_def Let_def
        split: option.splits)
next
  case (StopTracking response other)
  with assms show ?thesis
    by (cases response)
      (auto simp: holds_session_def stopTracking_def stopScreenshotCapture_def Let_def
        split: option.splits)
next
  case (GetActiveEntry response)
  show ?thesis
  proof (cases response)
    case (Inl m)
    with GetActiveEntry assms show ?thesis
      by (auto simp: holds_session_def getActiveEntry_def Let_def split: option.splits)
  next
    case (Inr dat)
    with GetActiveEntry assms show ?thesis
      by (cases dat)
        (auto simp: holds_session_def getActiveEntry_def Let_def split: option.splits)
  qed
next
  case Restart
  with assms show ?thesis
    by (auto simp: holds_session_def restart_def initialize_def startScreenshotCapture_def
        Let_def split: option.splits)
qed

lemma agent_run_keeps:
  assumes "\<not> holds_session tid a" and "\<forall>ev \<in> set evs. \<not> brings_back tid ev"
  shows "count_list (captureAttempts (agent_run evs a)) tid = count_list (captureAttempts a) tid"
  using assms
proof (induction evs arbitrary: a)
  case Nil
  then show ?case by simp
next
  case (Cons ev evs)
  then have "\<not> holds_session tid (agent_step ev a)"
    and "count_list (captureAttempts (agent_step ev a)) tid = count_list (captureAttempts a) tid"
    using agent_step_keeps [of tid a ev] by simp_all
  with Cons show ?case by simp
qed

text \<open>
  Claim C9. Once the agent's \<open>stopTracking\<close> has returned for a session, the timer is
  cleared, no entry is held and the cache is empty; the runtime fires no further tick,
  and a callback that was already pending when the timer was cleared finds no active
  entry and begins no capture. Whatever ticks follow, the list of capture attempts stays
  as it was when the stop returned; and whatever events follow (ticks, pending
  callbacks, further starts and stops, active queries, restarts), as long as the server
  does not hand the session back, the number of capture attempts for the stopped session
  never grows.
\<close>

theorem no_capture_after_stop:
  assumes "stopTracking response a timeEntryId = (Inr stopped, a')"
    and "\<forall>ev \<in> set evs. \<not> brings_back timeEntryId ev"
  shows "screenshotInterval a' = None \<and> activeEntry a' = None \<and>
         stored_activeTimeEntry a' = None \<and>
         captureAttempts (run_timer shots a') = captureAttempts a' \<and>
         captureAttempts (run_callbacks shots a') = captureAttempts a' \<and>
         count_list (captureAttempts (agent_run evs a')) timeEntryId
           = count_list (captureAttempts a') timeEntryId"
proof -
  from assms(1) have idle: "screenshotInterval a' = None" "activeEntry a' = None"
    "stored_activeTimeEntry a' = None"
    by (auto simp: stopTracking_def stopScreenshotCapture_def Let_def
        split: option.splits if_splits sum.splits)
  then have "\<not> holds_session timeEntryId a'" by (simp add: holds_session_def)
  from this assms(2) have "count_list (captureAttempts (agent_run evs a')) timeEntryId
           = count_list (captureAttempts a') timeEntryId"
    by (rule agent_run_keeps)
  with idle show ?thesis by (simp add: run_callbacks_idle run_timer_idle)
qed

theorem no_capture_after_stop_witness:
  "captureAttempts (timer_fires True ex_agent_tracking) = [''TE1''] \<and>
   stopTracking (Inr ex_stopped1) ex_agent_tracking ''TE1''
     = (Inr ex_stopped1, ex_agent\<lparr>apiCalls := [PostStart ''P'' ''Tk'', PostStop ''TE1'']\<rparr>) \<and>
   screenshotInterval (ex_agent\<lparr>apiCalls := [PostStart ''P'' ''Tk'', PostStop ''TE1'']\<rparr>) = None \<and>
   captureAttempts (run_timer [True, True]
       (ex_agent\<lparr>apiCalls := [PostStart ''P'' ''Tk'', PostStop ''TE1'']\<rparr>)) = [] \<and>
   captureAttempts (run_callbacks [True, False, True]
       (ex_agent\<lparr>apiCalls := [PostStart ''P'' ''Tk'', PostStop ''TE1'']\<rparr>)) = [] \<and>
   captureAttempts (agent_run
       [PendingTick True, Restart, Tick True, StartTracking (Inr ex_entry2) ex_req, Tick True]
       (ex_agent\<lparr>apiCalls := [PostStart ''P'' ''Tk'', PostStop ''TE1'']\<rparr>)) = [''TE2'']"
proof -
  have stop: "stopTracking (Inr ex_stopped1) ex_agent_tracking ''TE1''
     = (Inr ex_stopped1, ex_agent\<lparr>apiCalls := [PostStart ''P'' ''Tk'', PostStop ''TE1'']\<rparr>)"
    by (simp add: ex_defs agent_defs)
  have before: "captureAttempts (timer_fires True ex_agent_tracking) = [''TE1'']"
    by (simp add: ex_defs agent_defs)
  have evs: "\<forall>ev \<in> set [PendingTick True, Restart, Tick True,
      StartTracking (Inr ex_entry2) ex_req, Tick True]. \<not> brings_back ''TE1'' ev"
    by (simp add: ex_defs)
  have run: "captureAttempts (agent_run
       [PendingTick True, Restart, Tick True, StartTracking (Inr ex_entry2) ex_req, Tick True]
       (ex_agent\<lparr>apiCalls := [PostStart ''P'' ''Tk'', PostStop ''TE1'']\<rparr>)) = [''TE2'']"
    by (simp add: ex_defs agent_defs restart_def)
  from no_capture_after_stop [OF stop evs, of "[True, True]"]
    no_capture_after_stop [OF stop evs, of "[True, False, True]"] stop before run
  show ?thesis by (simp add: ex_defs)
qed

end
